theory Spec2Isabelle
  imports Complex_Main
begin

section \<open>Python values reaching the checkbox\<close>

text \<open>
  The interpretation methods of \<^verbatim>\<open>gradio/components/checkbox.py\<close> are untyped: the
  original input \<^verbatim>\<open>x\<close> is tested with \<^verbatim>\<open>if x:\<close> and negated with \<^verbatim>\<open>not x\<close>,
  so what counts is Python's truth value of \<^verbatim>\<open>x\<close>, and the scores are returned as
  the objects they are. The values below are the ones a checkbox input and a score can
  be; \<open>truthy\<close> is Python's \<^verbatim>\<open>bool(x)\<close> on them. A float is carried as a real
  number: no arithmetic is done on it here.
\<close>

datatype pyval =
    PyNone
  | PyBool bool
  | PyInt int
  | PyFloat real
  | PyStr string
  | PyList "pyval list"

definition truthy :: "pyval \<Rightarrow> bool" where
  "truthy v =
     (case v of
        PyNone \<Rightarrow> False
      | PyBool b \<Rightarrow> b
      | PyInt i \<Rightarrow> i \<noteq> 0
      | PyFloat r \<Rightarrow> r \<noteq> 0
      | PyStr s \<Rightarrow> s \<noteq> []
      | PyList vs \<Rightarrow> vs \<noteq> [])"

text \<open>\<^verbatim>\<open>not x\<close> always yields a Python bool.\<close>

definition py_not :: "pyval \<Rightarrow> pyval" where
  "py_not v = PyBool (\<not> truthy v)"

datatype py_error = IndexError

text \<open>
  \<^verbatim>\<open>xs[i]\<close> for a literal index \<open>i \<ge> 0\<close>: Python raises \<^verbatim>\<open>IndexError\<close> when the
  list is too short.
\<close>

definition getitem :: "'a list \<Rightarrow> nat \<Rightarrow> py_error + 'a" where
  "getitem xs i = (if i < length xs then Inr (xs ! i) else Inl IndexError)"

type_synonym py_float = real
type_synonym py_dict = "(string \<times> pyval) list"

section \<open>The sentinel for defaulted parameters\<close>

text \<open>
  Modelled from the spec: the class \<^verbatim>\<open>Default\<close> of \<^verbatim>\<open>gradio.blocks\<close> is imported by
  the checkbox and is not part of the sources. The spec describes it as an explicit
  "use default" sentinel, distinct from an explicit user-supplied value, to be read as a
  tagged option type distinguishing unset/use-default from an explicit value. \<open>Default d\<close>
  is the sentinel carrying the default \<open>d\<close>; \<open>Explicit v\<close> is a value given by the caller.
\<close>

datatype 'a defaultable = Default 'a | Explicit 'a

text \<open>
  Modelled from the spec: the function \<^verbatim>\<open>get\<close> of \<^verbatim>\<open>gradio.blocks\<close> is not part of
  the sources. The spec says that initialization resolves a defaultable parameter to a
  concrete value: the sentinel resolves to the default it carries, an explicit value to
  itself.
\<close>

definition get :: "'a defaultable \<Rightarrow> 'a" where
  "get p = (case p of Default d \<Rightarrow> d | Explicit v \<Rightarrow> v)"

definition is_sentinel :: "'a defaultable \<Rightarrow> bool" where
  "is_sentinel p = (case p of Default d \<Rightarrow> True | Explicit v \<Rightarrow> False)"

section \<open>The constructor's parameters\<close>

text \<open>
  \<^verbatim>\<open>value: bool | Callable | None | Default\<close>. A callable is, in the words of the spec's
  data model, a callable producing a boolean; it takes no argument.
\<close>

datatype value_arg = VBool bool | VCallable "unit \<Rightarrow> bool" | VNone

text \<open>\<^verbatim>\<open>elem_classes: list[str] | str | None | Default\<close>.\<close>

datatype classes_arg = ClassList "string list" | ClassStr string

text \<open>
  The parameters of \<^verbatim>\<open>Checkbox.__init__\<close> (lines 37 to 53), in the order of the
  signature. \<open>None\<close> of an option type is Python's \<^verbatim>\<open>None\<close>.
\<close>

record checkbox_params =
  arg_value :: "value_arg defaultable"
  arg_label :: "string option defaultable"
  arg_info :: "string option defaultable"
  arg_every :: "py_float option defaultable"
  arg_show_label :: "bool option defaultable"
  arg_container :: "bool option defaultable"
  arg_scale :: "int option defaultable"
  arg_min_width :: "int option defaultable"
  arg_interactive :: "bool option defaultable"
  arg_visible :: "bool defaultable"
  arg_elem_id :: "string option defaultable"
  arg_elem_classes :: "classes_arg option defaultable"
  arg_kwargs :: py_dict

text \<open>The defaults written in the signature: a call \<^verbatim>\<open>Checkbox()\<close> with no argument.\<close>

definition Checkbox_defaults :: checkbox_params where
  "Checkbox_defaults =
     \<lparr> arg_value = Default (VBool False),
       arg_label = Default None,
       arg_info = Default None,
       arg_every = Default None,
       arg_show_label = Default None,
       arg_container = Default (Some True),
       arg_scale = Default None,
       arg_min_width = Default (Some 160),
       arg_interactive = Default None,
       arg_visible = Default True,
       arg_elem_id = Default None,
       arg_elem_classes = Default None,
       arg_kwargs = [] \<rparr>"

section \<open>Initialization\<close>

text \<open>
  The keyword arguments of the call \<^verbatim>\<open>IOComponent.__init__(self, label=label, ...)\<close>
  (lines 81 to 96), in the order of the call. A field has the type its variable has at
  the call: the five variables rebound by \<^verbatim>\<open>get\<close> (lines 69 to 73) are resolved, the
  other seven still have the parameter's type.
\<close>

record io_args =
  fwd_label :: "string option defaultable"
  fwd_info :: "string option defaultable"
  fwd_every :: "py_float option defaultable"
  fwd_show_label :: "bool option defaultable"
  fwd_container :: "bool option"
  fwd_scale :: "int option"
  fwd_min_width :: "int option"
  fwd_interactive :: "bool option defaultable"
  fwd_visible :: bool
  fwd_elem_id :: "string option defaultable"
  fwd_elem_classes :: "classes_arg option defaultable"
  fwd_value :: value_arg
  fwd_kwargs :: py_dict

text \<open>
  Lines 69 to 96 of \<^verbatim>\<open>Checkbox.__init__\<close>: the five rebindings, then the argument
  bundle of the call of the base initializer.
\<close>

definition Checkbox_init_args :: "checkbox_params \<Rightarrow> io_args" where
  "Checkbox_init_args p =
     (let value = get (arg_value p);
          container = get (arg_container p);
          scale = get (arg_scale p);
          min_width = get (arg_min_width p);
          visible = get (arg_visible p)
      in \<lparr> fwd_label = arg_label p,
           fwd_info = arg_info p,
           fwd_every = arg_every p,
           fwd_show_label = arg_show_label p,
           fwd_container = container,
           fwd_scale = scale,
           fwd_min_width = min_width,
           fwd_interactive = arg_interactive p,
           fwd_visible = visible,
           fwd_elem_id = arg_elem_id p,
           fwd_elem_classes = arg_elem_classes p,
           fwd_value = value,
           fwd_kwargs = arg_kwargs p \<rparr>)"

text \<open>
  The widget: the attributes of the spec's data model (value, label, help text, cadence
  of the callable-driven refresh, visibility, layout hints, interactive flag, element
  identifier and classes), as fields of \<^verbatim>\<open>self\<close>. A field other than the value has
  the type of the argument forwarded for it.
\<close>

record checkbox =
  self_value :: "bool option"
  self_label :: "string option defaultable"
  self_info :: "string option defaultable"
  self_every :: "py_float option defaultable"
  self_show_label :: "bool option defaultable"
  self_container :: "bool option"
  self_scale :: "int option"
  self_min_width :: "int option"
  self_interactive :: "bool option defaultable"
  self_visible :: bool
  self_elem_id :: "string option defaultable"
  self_elem_classes :: "classes_arg option defaultable"

text \<open>
  Modelled from the spec: \<^verbatim>\<open>IOComponent.__init__\<close> of \<^verbatim>\<open>gradio.components.base\<close> is
  not part of the sources. The spec says that side effects are object field assignments
  only and that the stored value, once resolved, is never the callable or the sentinel;
  the constructor's docstring says that a callable value is called to set the initial
  value. So the base initializer stores a boolean value, calls a callable value once and
  stores what it produces. The spec does not say what the base initializer does with an
  argument that arrives as a sentinel: every other argument is assigned to its field as
  it was received. The extra keyword arguments are not read.
\<close>

definition IOComponent_init :: "io_args \<Rightarrow> checkbox" where
  "IOComponent_init a =
     \<lparr> self_value =
         (case fwd_value a of
            VBool b \<Rightarrow> Some b
          | VCallable f \<Rightarrow> Some (f ())
          | VNone \<Rightarrow> None),
       self_label = fwd_label a,
       self_info = fwd_info a,
       self_every = fwd_every a,
       self_show_label = fwd_show_label a,
       self_container = fwd_container a,
       self_scale = fwd_scale a,
       self_min_width = fwd_min_width a,
       self_interactive = fwd_interactive a,
       self_visible = fwd_visible a,
       self_elem_id = fwd_elem_id a,
       self_elem_classes = fwd_elem_classes a \<rparr>"

text \<open>
  Modelled from the spec: \<^verbatim>\<open>NeighborInterpretable.__init__\<close> of
  \<^verbatim>\<open>gradio.interpretation\<close> is not part of the sources. The spec's data model has no
  attribute that belongs to the interpretation capability, so its initializer leaves
  the attributes above as they are.
\<close>

definition NeighborInterpretable_init :: "checkbox \<Rightarrow> checkbox" where
  "NeighborInterpretable_init self = self"

text \<open>\<^verbatim>\<open>Checkbox.__init__\<close> as a whole (lines 69 to 97): the object it initializes.\<close>

definition Checkbox_init :: "checkbox_params \<Rightarrow> checkbox" where
  "Checkbox_init p = NeighborInterpretable_init (IOComponent_init (Checkbox_init_args p))"

section \<open>The interpretation methods\<close>

text \<open>
  Both methods take \<^verbatim>\<open>self\<close>; they are written in state-passing style and return the
  widget next to their result, so that what they do to the widget is part of the model.

  \<^verbatim>\<open>get_interpretation_neighbors\<close> (lines 99 and 100) returns the list \<^verbatim>\<open>[not x]\<close> and
  the empty dict.
\<close>

definition get_interpretation_neighbors ::
  "checkbox \<Rightarrow> pyval \<Rightarrow> (pyval list \<times> py_dict) \<times> checkbox" where
  "get_interpretation_neighbors self x = (([py_not x], []), self)"

text \<open>
  \<^verbatim>\<open>get_interpretation_scores\<close> (lines 102 to 110) returns a Python pair of objects:
  the first score as it stands in the list, and \<^verbatim>\<open>None\<close>, which is \<open>PyNone\<close>. Nothing
  checks that the score is a number. \<^verbatim>\<open>scores[0]\<close> raises on the empty list, on either
  branch.
\<close>

definition get_interpretation_scores ::
  "checkbox \<Rightarrow> pyval \<Rightarrow> pyval list \<Rightarrow> pyval list \<Rightarrow> py_dict
     \<Rightarrow> (py_error + pyval \<times> pyval) \<times> checkbox" where
  "get_interpretation_scores self x neighbors scores kwargs =
     (if truthy x then
        (case getitem scores 0 of
           Inl e \<Rightarrow> (Inl e, self)
         | Inr s \<Rightarrow> (Inr (s, PyNone), self))
      else
        (case getitem scores 0 of
           Inl e \<Rightarrow> (Inl e, self)
         | Inr s \<Rightarrow> (Inr (PyNone, s), self)))"

section \<open>Neighbors\<close>

text \<open>
  C2. For every boolean \<open>b\<close>, \<^verbatim>\<open>get_interpretation_neighbors\<close> produces exactly one
  neighbor, the negation of \<open>b\<close>, together with an empty mapping: \<^verbatim>\<open>[False]\<close> for
  \<^verbatim>\<open>True\<close> and \<^verbatim>\<open>[True]\<close> for \<^verbatim>\<open>False\<close>.
\<close>

theorem neighbors_is_negation:
  "fst (get_interpretation_neighbors self (PyBool b)) = ([PyBool (\<not> b)], [])
   \<and> fst (get_interpretation_neighbors self (PyBool True)) = ([PyBool False], [])
   \<and> fst (get_interpretation_neighbors self (PyBool False)) = ([PyBool True], [])"
  by (simp add: get_interpretation_neighbors_def py_not_def truthy_def)

section \<open>Scores\<close>

lemma getitem_Cons_0: "getitem (s # rest) 0 = Inr s"
  by (simp add: getitem_def)

lemma getitem_Nil: "getitem [] i = Inl IndexError"
  by (simp add: getitem_def)

lemma scores_Cons:
  "fst (get_interpretation_scores self x neighbors (s # rest) kwargs) =
     Inr (if truthy x then (s, PyNone) else (PyNone, s))"
  by (simp add: get_interpretation_scores_def getitem_Cons_0)

lemma scores_Nil:
  "fst (get_interpretation_scores self x neighbors [] kwargs) = Inl IndexError"
  by (simp add: get_interpretation_scores_def getitem_Nil)

text \<open>
  C1, as stated: original value \<^verbatim>\<open>True\<close> with scores \<^verbatim>\<open>[s]\<close> gives \<^verbatim>\<open>(None, s)\<close>, and
  \<^verbatim>\<open>False\<close> gives \<^verbatim>\<open>(s, None)\<close>. The code has the slots the other way round: on a
  freshly constructed checkbox, with the score 1, \<^verbatim>\<open>True\<close> gives \<^verbatim>\<open>(1, None)\<close> and
  \<^verbatim>\<open>False\<close> gives \<^verbatim>\<open>(None, 1)\<close>.
\<close>

theorem scores_slots_counterexample:
  "fst (get_interpretation_scores (Checkbox_init Checkbox_defaults)
          (PyBool True) [PyBool False] [PyInt 1] []) = Inr (PyInt 1, PyNone)
   \<and> fst (get_interpretation_scores (Checkbox_init Checkbox_defaults)
          (PyBool True) [PyBool False] [PyInt 1] []) \<noteq> Inr (PyNone, PyInt 1)
   \<and> fst (get_interpretation_scores (Checkbox_init Checkbox_defaults)
          (PyBool False) [PyBool True] [PyInt 1] []) = Inr (PyNone, PyInt 1)
   \<and> fst (get_interpretation_scores (Checkbox_init Checkbox_defaults)
          (PyBool False) [PyBool True] [PyInt 1] []) \<noteq> Inr (PyInt 1, PyNone)"
  by (simp add: get_interpretation_scores_def getitem_def truthy_def)

text \<open>
  C1, amended: for every score \<open>s\<close>, original value \<^verbatim>\<open>True\<close> with scores \<^verbatim>\<open>[s]\<close> returns
  the pair \<^verbatim>\<open>(s, None)\<close>, and original value \<^verbatim>\<open>False\<close> returns \<^verbatim>\<open>(None, s)\<close>. The
  first slot is the score of the input \<^verbatim>\<open>False\<close>, which is the neighbor of \<^verbatim>\<open>True\<close>, as
  the method's docstring says. This holds for every object \<open>s\<close>, \<^verbatim>\<open>None\<close> included.
\<close>

theorem scores_slots:
  "fst (get_interpretation_scores self (PyBool True) neighbors [s] kwargs) = Inr (s, PyNone)
   \<and> fst (get_interpretation_scores self (PyBool False) neighbors [s] kwargs) = Inr (PyNone, s)"
  by (simp add: scores_Cons truthy_def)

text \<open>
  C3, as stated: for every boolean and every one-element score list \<^verbatim>\<open>[s]\<close>, exactly one
  slot of the returned pair is populated. The method does not look at the score: for the
  list \<^verbatim>\<open>[None]\<close> it returns \<^verbatim>\<open>(None, None)\<close>, with no slot populated, for \<^verbatim>\<open>True\<close> and
  for \<^verbatim>\<open>False\<close>.
\<close>

theorem scores_none_counterexample:
  "fst (get_interpretation_scores (Checkbox_init Checkbox_defaults)
          (PyBool True) [PyBool False] [PyNone] []) = Inr (PyNone, PyNone)
   \<and> fst (get_interpretation_scores (Checkbox_init Checkbox_defaults)
          (PyBool False) [PyBool True] [PyNone] []) = Inr (PyNone, PyNone)"
  by (simp add: get_interpretation_scores_def getitem_def truthy_def)

text \<open>
  C3, amended: for every boolean \<open>b\<close> and every one-element score list \<^verbatim>\<open>[s]\<close> whose score
  \<open>s\<close> is not \<^verbatim>\<open>None\<close>, the method returns a pair in which exactly one slot holds \<open>s\<close>
  and the other is \<^verbatim>\<open>None\<close>; which slot it is depends on \<open>b\<close> alone (the first for
  \<^verbatim>\<open>True\<close>, the second for \<^verbatim>\<open>False\<close>).
\<close>

theorem scores_exactly_one_slot:
  "s \<noteq> PyNone \<Longrightarrow>
   \<exists>l r. fst (get_interpretation_scores self (PyBool b) neighbors [s] kwargs) = Inr (l, r)
     \<and> ((l = s \<and> r = PyNone) \<or> (l = PyNone \<and> r = s))
     \<and> (l \<noteq> PyNone) = (r = PyNone)
     \<and> (l = s) = b
     \<and> (r = s) = (\<not> b)"
  by (cases b) (auto simp add: scores_Cons truthy_def)

theorem scores_exactly_one_slot_witness:
  "PyFloat (1 / 2) \<noteq> PyNone
   \<and> (\<exists>l r. fst (get_interpretation_scores (Checkbox_init Checkbox_defaults)
                (PyBool False) [PyBool True] [PyFloat (1 / 2)] []) = Inr (l, r)
        \<and> ((l = PyFloat (1 / 2) \<and> r = PyNone) \<or> (l = PyNone \<and> r = PyFloat (1 / 2)))
        \<and> (l \<noteq> PyNone) = (r = PyNone)
        \<and> (l = PyFloat (1 / 2)) = False
        \<and> (r = PyFloat (1 / 2)) = (\<not> False))"
proof -
  have h: "PyFloat (1 / 2) \<noteq> PyNone"
    by simp
  from scores_exactly_one_slot
    [OF h, of "Checkbox_init Checkbox_defaults" False "[PyBool True]" "[]"] h
  show ?thesis
    by blast
qed

text \<open>
  C9. \<^verbatim>\<open>scores[0]\<close> is evaluated on both branches: for every \<open>x\<close> the call fails with
  \<^verbatim>\<open>IndexError\<close> on the empty list, and on a non-empty list it returns a pair built
  from the first score, with no error.
\<close>

theorem scores_index_safety:
  "fst (get_interpretation_scores self x neighbors [] kwargs) = Inl IndexError
   \<and> (scores \<noteq> [] \<longrightarrow>
        fst (get_interpretation_scores self x neighbors scores kwargs) =
          Inr (if truthy x then (hd scores, PyNone) else (PyNone, hd scores)))"
proof (cases scores)
  case Nil
  then show ?thesis by (simp add: scores_Nil)
next
  case (Cons s rest)
  then show ?thesis by (simp add: scores_Nil scores_Cons)
qed

theorem scores_index_safety_witness:
  "fst (get_interpretation_scores (Checkbox_init Checkbox_defaults)
          (PyBool True) [PyBool False] [] []) = Inl IndexError
   \<and> [PyInt 4, PyInt 5] \<noteq> []
   \<and> fst (get_interpretation_scores (Checkbox_init Checkbox_defaults)
          (PyBool True) [PyBool False] [PyInt 4, PyInt 5] []) = Inr (PyInt 4, PyNone)"
  using scores_index_safety
    [of "Checkbox_init Checkbox_defaults" "PyBool True" "[PyBool False]" "[]"
        "[PyInt 4, PyInt 5]"]
  by (simp add: truthy_def)

text \<open>
  C10. The result depends only on the truth value of \<open>x\<close> and on the first score: two
  calls that agree on these return the same pair, whatever the widget, the neighbors,
  the later scores and the extra keyword arguments are.
\<close>

theorem scores_depend_on_truth_and_first:
  "truthy x = truthy x' \<Longrightarrow>
   fst (get_interpretation_scores self x neighbors (s # rest) kwargs) =
   fst (get_interpretation_scores self' x' neighbors' (s # rest') kwargs')"
  by (simp add: scores_Cons)

theorem scores_depend_on_truth_and_first_witness:
  "truthy (PyBool True) = truthy (PyInt 3)
   \<and> fst (get_interpretation_scores (Checkbox_init Checkbox_defaults)
          (PyBool True) [PyBool False] [PyInt 2] []) =
     fst (get_interpretation_scores
          (Checkbox_init (Checkbox_defaults\<lparr>arg_value := Explicit (VBool True)\<rparr>))
          (PyInt 3) [] [PyInt 2, PyInt 9, PyInt 9] [(''k'', PyNone)])"
proof -
  have h: "truthy (PyBool True) = truthy (PyInt 3)"
    by (simp add: truthy_def)
  show ?thesis
    using h scores_depend_on_truth_and_first [OF h,
      of "Checkbox_init Checkbox_defaults" "[PyBool False]" "PyInt 2" "[]" "[]"
         "Checkbox_init (Checkbox_defaults\<lparr>arg_value := Explicit (VBool True)\<rparr>)"
         "[]" "[PyInt 9, PyInt 9]" "[(''k'', PyNone)]"]
    by simp
qed

section \<open>Frame\<close>

text \<open>
  C8. Neither interpretation method changes a field of the widget: the widget returned
  next to the result is the one the method was called on, on every input, the failing
  call on the empty score list included.
\<close>

theorem interpretation_methods_keep_widget:
  "snd (get_interpretation_neighbors self x) = self
   \<and> snd (get_interpretation_scores self x neighbors scores kwargs) = self"
  by (simp add: get_interpretation_neighbors_def get_interpretation_scores_def
      split: sum.split)

section \<open>Initialization: what is forwarded\<close>

text \<open>
  C6, as stated: every defaultable parameter is resolved before it is forwarded to the
  base initializer, and no sentinel is passed on. Only five parameters go through
  \<^verbatim>\<open>get\<close>: for \<^verbatim>\<open>Checkbox()\<close>, the arguments \<^verbatim>\<open>label\<close>, \<^verbatim>\<open>info\<close>, \<^verbatim>\<open>every\<close>,
  \<^verbatim>\<open>show_label\<close>, \<^verbatim>\<open>interactive\<close>, \<^verbatim>\<open>elem_id\<close> and \<^verbatim>\<open>elem_classes\<close> reach the base
  initializer as sentinels.
\<close>

theorem forwarded_sentinels_counterexample:
  "is_sentinel (fwd_label (Checkbox_init_args Checkbox_defaults))
   \<and> is_sentinel (fwd_info (Checkbox_init_args Checkbox_defaults))
   \<and> is_sentinel (fwd_every (Checkbox_init_args Checkbox_defaults))
   \<and> is_sentinel (fwd_show_label (Checkbox_init_args Checkbox_defaults))
   \<and> is_sentinel (fwd_interactive (Checkbox_init_args Checkbox_defaults))
   \<and> is_sentinel (fwd_elem_id (Checkbox_init_args Checkbox_defaults))
   \<and> is_sentinel (fwd_elem_classes (Checkbox_init_args Checkbox_defaults))"
  by (simp add: Checkbox_init_args_def Checkbox_defaults_def is_sentinel_def)

text \<open>
  C6, amended: during initialization the parameters \<^verbatim>\<open>value\<close>, \<^verbatim>\<open>container\<close>, \<^verbatim>\<open>scale\<close>,
  \<^verbatim>\<open>min_width\<close> and \<^verbatim>\<open>visible\<close> are resolved with \<^verbatim>\<open>get\<close> before they are forwarded
  to the base initializer; \<^verbatim>\<open>label\<close>, \<^verbatim>\<open>info\<close>, \<^verbatim>\<open>every\<close>, \<^verbatim>\<open>show_label\<close>,
  \<^verbatim>\<open>interactive\<close>, \<^verbatim>\<open>elem_id\<close> and \<^verbatim>\<open>elem_classes\<close> are forwarded as they were
  received, a sentinel included, and so are the extra keyword arguments.
\<close>

theorem forwarded_arguments:
  "fwd_value (Checkbox_init_args p) = get (arg_value p)
   \<and> fwd_container (Checkbox_init_args p) = get (arg_container p)
   \<and> fwd_scale (Checkbox_init_args p) = get (arg_scale p)
   \<and> fwd_min_width (Checkbox_init_args p) = get (arg_min_width p)
   \<and> fwd_visible (Checkbox_init_args p) = get (arg_visible p)
   \<and> fwd_label (Checkbox_init_args p) = arg_label p
   \<and> fwd_info (Checkbox_init_args p) = arg_info p
   \<and> fwd_every (Checkbox_init_args p) = arg_every p
   \<and> fwd_show_label (Checkbox_init_args p) = arg_show_label p
   \<and> fwd_interactive (Checkbox_init_args p) = arg_interactive p
   \<and> fwd_elem_id (Checkbox_init_args p) = arg_elem_id p
   \<and> fwd_elem_classes (Checkbox_init_args p) = arg_elem_classes p
   \<and> fwd_kwargs (Checkbox_init_args p) = arg_kwargs p"
  by (simp add: Checkbox_init_args_def)

section \<open>Initialization: what is stored\<close>

lemma stored_value:
  "self_value (Checkbox_init p) =
     (case get (arg_value p) of
        VBool b \<Rightarrow> Some b
      | VCallable f \<Rightarrow> Some (f ())
      | VNone \<Rightarrow> None)"
  by (simp add: Checkbox_init_def NeighborInterpretable_init_def IOComponent_init_def
      Checkbox_init_args_def)

text \<open>
  C4. Round trip: for every boolean \<open>b\<close>, a checkbox constructed with \<^verbatim>\<open>value=b\<close>,
  whatever the other arguments are, has \<open>b\<close> as its resolved value.
\<close>

theorem explicit_value_round_trip:
  "self_value (Checkbox_init (p\<lparr>arg_value := Explicit (VBool b)\<rparr>)) = Some b"
  by (simp add: stored_value get_def)



text \<open>
  C7. After initialization the stored value is a boolean, for each kind of input the
  constructor is meant for: an explicit boolean, a callable, or no argument (the
  sentinel of the signature). It is then neither the callable nor the sentinel.
\<close>

theorem stored_value_is_boolean:
  "arg_value p = Explicit (VBool b) \<or> arg_value p = Explicit (VCallable f)
     \<or> arg_value p = arg_value Checkbox_defaults
   \<Longrightarrow> \<exists>r. self_value (Checkbox_init p) = Some r"
  by (auto simp add: stored_value get_def Checkbox_defaults_def)

theorem stored_value_is_boolean_witness:
  "arg_value (Checkbox_defaults\<lparr>arg_value := Explicit (VCallable (\<lambda>u. True))\<rparr>)
     = Explicit (VCallable (\<lambda>u. True))
   \<and> (\<exists>r. self_value
         (Checkbox_init (Checkbox_defaults\<lparr>arg_value := Explicit (VCallable (\<lambda>u. True))\<rparr>))
       = Some r)"
proof -
  have h:
    "arg_value (Checkbox_defaults\<lparr>arg_value := Explicit (VCallable (\<lambda>u. True))\<rparr>)
       = Explicit (VCallable (\<lambda>u. True))"
    by simp
  then have
    "arg_value (Checkbox_defaults\<lparr>arg_value := Explicit (VCallable (\<lambda>u. True))\<rparr>)
       = Explicit (VBool False)
     \<or> arg_value (Checkbox_defaults\<lparr>arg_value := Explicit (VCallable (\<lambda>u. True))\<rparr>)
       = Explicit (VCallable (\<lambda>u. True))
     \<or> arg_value (Checkbox_defaults\<lparr>arg_value := Explicit (VCallable (\<lambda>u. True))\<rparr>)
       = arg_value Checkbox_defaults"
    by blast
  from stored_value_is_boolean [OF this] h show ?thesis
    by blast
qed

end
